theory Spec2Isabelle
  imports Main
begin

section \<open>Type-annotation helpers of \<open>openapi_spec_models.utils\<close>\<close>

text \<open>
  The module \<open>utils.py\<close> holds two module-level tables, \<open>wrapper_type_set\<close> and
  \<open>instantiable_type_mapping\<close>, and three functions over type annotations:
  \<open>unwrap_annotation\<close>, \<open>get_origin_or_inner_type\<close> and \<open>is_non_string_sequence\<close>.
  The functions see an annotation only through \<open>typing.get_origin\<close>, \<open>get_args\<close>,
  \<open>inspect.isclass\<close> and \<open>issubclass\<close>, so the embedding fixes a datatype of the Python
  objects that can occur as annotations, origins, table keys and metadata, gives those four
  library functions by cases on it, and then follows the three functions statement by
  statement.
\<close>

subsection \<open>Python objects\<close>

text \<open>The four special forms collected in \<open>wrapper_type_set\<close>.\<close>

datatype wrapper_form = Annotated | Required | NotRequired | ReadOnly

text \<open>
  The unsubscripted aliases of \<open>typing\<close> that the module imports (\<open>typing.List\<close>, ...).
  Each is an object of its own: it is neither equal to the class it stands for nor to
  another alias of the same class.
\<close>

datatype typing_alias =
    T_AbstractSet | T_DefaultDict | T_Deque | T_Dict | T_FrozenSet | T_List | T_Mapping
  | T_MutableMapping | T_MutableSequence | T_MutableSet | T_Sequence | T_Set | T_Tuple

text \<open>
  Classes: the built-in and \<open>collections\<close> / \<open>collections.abc\<close> classes the module names,
  a few scalar classes, and classes declared by a program with their list of bases.
\<close>

datatype cls =
    C_object | C_int | C_bool | C_str | C_bytes
  | C_list | C_tuple | C_dict | C_defaultdict | C_set | C_frozenset | C_deque
  | ABC_Sequence | ABC_MutableSequence | ABC_Set | ABC_MutableSet
  | ABC_Mapping | ABC_MutableMapping
  | UserClass string "cls list"

text \<open>
  Python objects. \<open>Wrapped w t ms\<close> is the subscription \<open>w[t, ms...]\<close> of a wrapper form
  (\<open>Annotated[int, 'a', 'b']\<close>, \<open>Required[int]\<close>); \<open>Subscript c args\<close> is a parameterised
  class or alias (\<open>List[int]\<close>, \<open>dict[str, int]\<close>), whose origin is the class;
  \<open>FormApp f args\<close> is the subscription of any other special form (\<open>Union[int, str]\<close>).
  \<open>StrVal\<close> and \<open>IntVal\<close> stand for the values that occur as \<open>Annotated\<close> metadata.
\<close>

text \<open>
  Every object of this type can be hashed and compared, as the special forms, aliases,
  classes and subscriptions built by \<open>typing\<close> can, and a subscription of a wrapper
  form always carries its first argument. A subscription is a finite term; the
  interpreter's bound on the depth of recursion is not modelled.
\<close>

datatype pyobj =
    PyNone
  | StrVal string
  | IntVal int
  | Wrapper wrapper_form
  | Form string
  | Alias typing_alias
  | Class cls
  | Wrapped wrapper_form pyobj "pyobj list"
  | Subscript cls "pyobj list"
  | FormApp string "pyobj list"

datatype error = TypeError | ValueError

subsection \<open>Library functions the module calls\<close>

text \<open>The class an unsubscripted \<open>typing\<close> alias stands for (its \<open>__origin__\<close>).\<close>

fun alias_origin :: "typing_alias \<Rightarrow> cls" where
  "alias_origin T_AbstractSet = ABC_Set"
| "alias_origin T_DefaultDict = C_defaultdict"
| "alias_origin T_Deque = C_deque"
| "alias_origin T_Dict = C_dict"
| "alias_origin T_FrozenSet = C_frozenset"
| "alias_origin T_List = C_list"
| "alias_origin T_Mapping = ABC_Mapping"
| "alias_origin T_MutableMapping = ABC_MutableMapping"
| "alias_origin T_MutableSequence = ABC_MutableSequence"
| "alias_origin T_MutableSet = ABC_MutableSet"
| "alias_origin T_Sequence = ABC_Sequence"
| "alias_origin T_Set = C_set"
| "alias_origin T_Tuple = C_tuple"

text \<open>\<open>typing.get_origin\<close>: the origin of a subscription or alias, \<open>None\<close> otherwise.\<close>

fun get_origin :: "pyobj \<Rightarrow> pyobj" where
  "get_origin (Wrapped w t ms) = Wrapper w"
| "get_origin (Subscript c args) = Class c"
| "get_origin (FormApp f args) = Form f"
| "get_origin (Alias a) = Class (alias_origin a)"
| "get_origin _ = PyNone"

text \<open>\<open>get_args\<close>: the arguments of a subscription, the empty tuple otherwise.\<close>

fun get_args :: "pyobj \<Rightarrow> pyobj list" where
  "get_args (Wrapped w t ms) = t # ms"
| "get_args (Subscript c args) = args"
| "get_args (FormApp f args) = args"
| "get_args _ = []"

text \<open>
  \<open>inspect.isclass\<close>: whether the object is an instance of \<open>type\<close>. In Python 3.11
  \<open>typing.Annotated\<close> is itself a class (with \<open>object\<close> as its only base, and closed
  to subclassing); the other three wrapper forms are instances of a special-form class.
  Other special forms, aliases and subscriptions are not classes (for \<open>list[int]\<close> this
  is so from Python 3.11 on).
\<close>

fun isclass :: "pyobj \<Rightarrow> bool" where
  "isclass (Class c) = True"
| "isclass (Wrapper Annotated) = True"
| "isclass _ = False"

text \<open>Truth value of an object, as \<open>not\<close> and \<open>or\<close> test it.\<close>

fun truthy :: "pyobj \<Rightarrow> bool" where
  "truthy PyNone = False"
| "truthy (StrVal s) = (s \<noteq> [])"
| "truthy (IntVal i) = (i \<noteq> 0)"
| "truthy _ = True"

definition py_or :: "pyobj \<Rightarrow> pyobj \<Rightarrow> pyobj" where
  "py_or x y = (if truthy x then x else y)"

text \<open>
  The classes \<open>issubclass\<close> accepts a class for: the class itself, its bases and their
  ancestors, and the abstract base classes of \<open>collections.abc\<close> it is registered with.
  Only the abstract classes this module names are listed.
\<close>

fun supers :: "cls \<Rightarrow> cls list" where
  "supers C_object = [C_object]"
| "supers C_int = [C_int, C_object]"
| "supers C_bool = [C_bool, C_int, C_object]"
| "supers C_str = [C_str, ABC_Sequence, C_object]"
| "supers C_bytes = [C_bytes, ABC_Sequence, C_object]"
| "supers C_list = [C_list, ABC_MutableSequence, ABC_Sequence, C_object]"
| "supers C_tuple = [C_tuple, ABC_Sequence, C_object]"
| "supers C_dict = [C_dict, ABC_MutableMapping, ABC_Mapping, C_object]"
| "supers C_defaultdict =
     [C_defaultdict, C_dict, ABC_MutableMapping, ABC_Mapping, C_object]"
| "supers C_set = [C_set, ABC_MutableSet, ABC_Set, C_object]"
| "supers C_frozenset = [C_frozenset, ABC_Set, C_object]"
| "supers C_deque = [C_deque, ABC_MutableSequence, ABC_Sequence, C_object]"
| "supers ABC_Sequence = [ABC_Sequence, C_object]"
| "supers ABC_MutableSequence = [ABC_MutableSequence, ABC_Sequence, C_object]"
| "supers ABC_Set = [ABC_Set, C_object]"
| "supers ABC_MutableSet = [ABC_MutableSet, ABC_Set, C_object]"
| "supers ABC_Mapping = [ABC_Mapping, C_object]"
| "supers ABC_MutableMapping = [ABC_MutableMapping, ABC_Mapping, C_object]"
| "supers (UserClass n bases) =
     UserClass n bases # concat (map supers bases) @ [C_object]"

definition subclass_of :: "cls \<Rightarrow> cls \<Rightarrow> bool" where
  "subclass_of c d = (d \<in> set (supers c))"

text \<open>
  \<open>issubclass(x, y)\<close> for a single \<open>y\<close>. A first argument that is not a class raises
  \<open>TypeError\<close>; an unsubscripted \<open>typing\<close> alias as second argument delegates to its
  origin; any other second argument that is not a class raises \<open>TypeError\<close>. The class
  \<open>typing.Annotated\<close> is a subclass of itself and of \<open>object\<close> only, and no other
  class is a subclass of it.
\<close>

fun issubclass1 :: "pyobj \<Rightarrow> pyobj \<Rightarrow> error + bool" where
  "issubclass1 (Class c) (Class d) = Inr (subclass_of c d)"
| "issubclass1 (Class c) (Alias a) = Inr (subclass_of c (alias_origin a))"
| "issubclass1 (Class c) (Wrapper Annotated) = Inr False"
| "issubclass1 (Wrapper Annotated) (Class d) = Inr (d = C_object)"
| "issubclass1 (Wrapper Annotated) (Alias a) = Inr (alias_origin a = C_object)"
| "issubclass1 (Wrapper Annotated) (Wrapper Annotated) = Inr True"
| "issubclass1 _ _ = Inl TypeError"

text \<open>
  \<open>issubclass(x, (y1, ..., yn))\<close>: the entries are tried in order, the first success
  answers \<open>True\<close>, and an exception of an entry propagates.
\<close>

fun issubclass :: "pyobj \<Rightarrow> pyobj list \<Rightarrow> error + bool" where
  "issubclass x [] = Inr False"
| "issubclass x (y # ys) =
     (case issubclass1 x y of
        Inl e \<Rightarrow> Inl e
      | Inr True \<Rightarrow> Inr True
      | Inr False \<Rightarrow> issubclass x ys)"

text \<open>\<open>d.get(k)\<close> and \<open>d.get(k, default)\<close> on a dictionary kept as its list of items.\<close>

definition dict_lookup :: "(pyobj \<times> pyobj) list \<Rightarrow> pyobj \<Rightarrow> pyobj option" where
  "dict_lookup d k = map_of d k"

definition dict_get :: "(pyobj \<times> pyobj) list \<Rightarrow> pyobj \<Rightarrow> pyobj \<Rightarrow> pyobj" where
  "dict_get d k dflt = (case dict_lookup d k of None \<Rightarrow> dflt | Some v \<Rightarrow> v)"

subsection \<open>Module state\<close>

text \<open>
  The two module-level names. They are ordinary mutable Python objects, so every
  function below receives the current tables and hands back the tables it leaves.
\<close>

record globals =
  wrapper_type_set :: "pyobj set"
  instantiable_type_mapping :: "(pyobj \<times> pyobj) list"

text \<open>The tables as the module body builds them at import.\<close>

definition module_globals :: globals where
  "module_globals =
    \<lparr> wrapper_type_set =
        {Wrapper Annotated, Wrapper Required, Wrapper NotRequired, Wrapper ReadOnly},
      instantiable_type_mapping =
        [ (Alias T_AbstractSet, Class C_set),
          (Alias T_DefaultDict, Class C_defaultdict),
          (Alias T_Deque, Class C_deque),
          (Alias T_Dict, Class C_dict),
          (Alias T_FrozenSet, Class C_frozenset),
          (Alias T_List, Class C_list),
          (Alias T_Mapping, Class C_dict),
          (Alias T_MutableMapping, Class C_dict),
          (Alias T_MutableSequence, Class C_list),
          (Alias T_MutableSet, Class C_set),
          (Alias T_Sequence, Class C_list),
          (Alias T_Set, Class C_set),
          (Alias T_Tuple, Class C_tuple),
          (Class ABC_Mapping, Class C_dict),
          (Class ABC_MutableMapping, Class C_dict),
          (Class ABC_MutableSequence, Class C_list),
          (Class ABC_MutableSet, Class C_set),
          (Class ABC_Sequence, Class C_list),
          (Class ABC_Set, Class C_set),
          (Class C_defaultdict, Class C_defaultdict),
          (Class C_deque, Class C_deque),
          (Class C_dict, Class C_dict),
          (Class C_frozenset, Class C_frozenset),
          (Class C_list, Class C_list),
          (Class C_set, Class C_set),
          (Class C_tuple, Class C_tuple) ] \<rparr>"

text \<open>
  A call ends with a value or an exception, and with the tables as it leaves them.
\<close>

type_synonym 'a outcome = "(error + 'a) \<times> globals"

subsection \<open>\<open>unwrap_annotation\<close>\<close>

text \<open>
  \<^verbatim>\<open>
  origin = get_origin(annotation)
  wrappers = set()
  metadata = []
  while origin in wrapper_type_set:
      wrappers.add(origin)
      annotation, *meta = get_args(annotation)
      metadata.extend(meta)
      origin = get_origin(annotation)
      return annotation, tuple(metadata), wrappers
  \<close>
  The \<open>return\<close> is the last statement of the loop body, so the body runs at most once
  and the loop is a conditional. When the loop condition fails on entry, control reaches
  the end of the function and the call evaluates to \<open>None\<close>: the result is an option,
  \<open>None\<close> for Python's \<open>None\<close> and \<open>Some\<close> for the returned triple. Unpacking an empty
  argument tuple raises \<open>ValueError\<close>.
\<close>

definition unwrap_annotation ::
  "globals \<Rightarrow> pyobj \<Rightarrow> (pyobj \<times> pyobj list \<times> pyobj set) option outcome" where
  "unwrap_annotation g annotation =
    (let origin = get_origin annotation;
         wrappers = ({} :: pyobj set);
         metadata = ([] :: pyobj list)
     in if origin \<in> wrapper_type_set g then
          (let wrappers = insert origin wrappers
           in case get_args annotation of
                [] \<Rightarrow> (Inl ValueError, g)
              | annotation' # meta \<Rightarrow>
                  (let metadata = metadata @ meta;
                       origin' = get_origin annotation'
                   in (Inr (Some (annotation', metadata, wrappers)), g)))
        else (Inr None, g))"

subsection \<open>\<open>get_origin_or_inner_type\<close>\<close>

text \<open>
  \<^verbatim>\<open>
  origin = get_origin(annotation)
  if origin in wrapper_type_set:
      inner, _, _ = unwrap_annotation(annotation)
      origin = get_origin_or_inner_type(inner)
      return instantiable_type_mapping.get(origin, origin)
  \<close>
  The \<open>return\<close> belongs to the \<open>if\<close>; without a wrapper origin the function ends
  without a \<open>return\<close> and evaluates to \<open>None\<close>. Unpacking \<open>None\<close> into three names
  raises \<open>TypeError\<close>.
\<close>

function get_origin_or_inner_type :: "globals \<Rightarrow> pyobj \<Rightarrow> pyobj outcome" where
  "get_origin_or_inner_type g annotation =
    (let origin = get_origin annotation
     in if origin \<in> wrapper_type_set g then
          (case unwrap_annotation g annotation of
             (Inl e, g1) \<Rightarrow> (Inl e, g1)
           | (Inr None, g1) \<Rightarrow> (Inl TypeError, g1)
           | (Inr (Some (inner, _, _)), g1) \<Rightarrow>
               (case get_origin_or_inner_type g1 inner of
                  (Inl e, g2) \<Rightarrow> (Inl e, g2)
                | (Inr origin', g2) \<Rightarrow>
                    (Inr (dict_get (instantiable_type_mapping g2) origin' origin'), g2)))
        else (Inr PyNone, g))"
  by pat_completeness auto
termination
  apply (relation "measure (\<lambda>(g, a). size a)")
   apply simp
  subgoal for g annotation g1 inner m w
    by (cases annotation)
       (auto simp: unwrap_annotation_def Let_def split: if_splits list.splits)
  done

subsection \<open>\<open>is_non_string_sequence\<close>\<close>

text \<open>The two tuples of classes the function tests against.\<close>

definition string_types :: "pyobj list" where
  "string_types = [Class C_str, Class C_bytes]"

definition sequence_types :: "pyobj list" where
  "sequence_types =
    [Alias T_Tuple, Alias T_List, Alias T_Set, Alias T_FrozenSet, Alias T_Deque,
     Alias T_Sequence, Class C_list, Class C_tuple, Class C_deque, Class C_set,
     Class C_frozenset]"

text \<open>
  The expression of the \<open>try\<close> block,
  \<^verbatim>\<open>not issubclass(x, (str, bytes)) and issubclass(x, (Tuple, ..., frozenset))\<close>
  with \<open>x = origin or annotation\<close>; \<open>and\<close> evaluates its right operand only when the left
  one is true.
\<close>

definition subtype_test :: "pyobj \<Rightarrow> error + bool" where
  "subtype_test x =
    (case issubclass x string_types of
       Inl e \<Rightarrow> Inl e
     | Inr True \<Rightarrow> Inr False
     | Inr False \<Rightarrow> issubclass x sequence_types)"

text \<open>
  \<^verbatim>\<open>
  origin = get_origin_or_inner_type(annotation)
  if not origin and not isclass(annotation):
      return False
  try:
      return not issubclass(origin or annotation, (str, bytes)) and issubclass(...)
  except TypeError:
      return False
  \<close>
  The call of \<open>get_origin_or_inner_type\<close> stands outside the \<open>try\<close>, so an exception of
  it propagates; inside the \<open>try\<close> only \<open>TypeError\<close> is handled.
\<close>

definition is_non_string_sequence :: "globals \<Rightarrow> pyobj \<Rightarrow> bool outcome" where
  "is_non_string_sequence g annotation =
    (case get_origin_or_inner_type g annotation of
       (Inl e, g1) \<Rightarrow> (Inl e, g1)
     | (Inr origin, g1) \<Rightarrow>
         if \<not> truthy origin \<and> \<not> isclass annotation then (Inr False, g1)
         else (case subtype_test (py_or origin annotation) of
                 Inl TypeError \<Rightarrow> (Inr False, g1)
               | Inl e \<Rightarrow> (Inl e, g1)
               | Inr b \<Rightarrow> (Inr b, g1)))"

section \<open>Properties\<close>

subsection \<open>What the calls leave in the module tables\<close>

lemma unwrap_annotation_globals: "snd (unwrap_annotation g a) = g"
  by (simp add: unwrap_annotation_def Let_def split: list.splits)

lemma get_origin_or_inner_type_globals: "snd (get_origin_or_inner_type g a) = g"
proof (induction g a rule: get_origin_or_inner_type.induct)
  case (1 g annotation)
  show ?case
  proof (cases "get_origin annotation \<in> wrapper_type_set g")
    case False
    then show ?thesis by simp
  next
    case True
    obtain r g1 where u: "unwrap_annotation g annotation = (r, g1)"
      by (cases "unwrap_annotation g annotation")
    have g1: "g1 = g" using unwrap_annotation_globals [of g annotation] u by simp
    show ?thesis
    proof (cases r)
      case (Inl e)
      with True u g1 show ?thesis by simp
    next
      case (Inr v)
      show ?thesis
      proof (cases v)
        case None
        with True u g1 Inr show ?thesis by simp
      next
        case (Some t)
        obtain inner m w where t: "t = (inner, m, w)" by (cases t)
        have ih: "snd (get_origin_or_inner_type g1 inner) = g1"
          using "1.IH" [OF refl True u [symmetric]] Inr Some t by simp
        show ?thesis
          using True u g1 Inr Some t ih
          by (cases "get_origin_or_inner_type g inner") (auto split: sum.splits)
      qed
    qed
  qed
qed

lemma is_non_string_sequence_globals: "snd (is_non_string_sequence g a) = g"
proof -
  obtain r g1 where c: "get_origin_or_inner_type g a = (r, g1)"
    by (cases "get_origin_or_inner_type g a")
  have "g1 = g" using get_origin_or_inner_type_globals [of g a] c by simp
  with c show ?thesis
    by (simp add: is_non_string_sequence_def split: sum.splits error.splits)
qed

text \<open>
  C10. None of the three functions changes \<open>wrapper_type_set\<close> or
  \<open>instantiable_type_mapping\<close>: called on any annotation with the tables the module
  body built, each of them ends, with a value or an exception, in those same tables.
\<close>

theorem registry_tables_unchanged:
  "snd (unwrap_annotation module_globals a) = module_globals
   \<and> snd (get_origin_or_inner_type module_globals a) = module_globals
   \<and> snd (is_non_string_sequence module_globals a) = module_globals"
  by (simp only: unwrap_annotation_globals get_origin_or_inner_type_globals
        is_non_string_sequence_globals)

subsection \<open>The result of \<open>get_origin_or_inner_type\<close>\<close>

lemma wrapper_origin_iff:
  "get_origin a \<in> wrapper_type_set module_globals \<longleftrightarrow> (\<exists>w t ms. a = Wrapped w t ms)"
proof (cases a)
  case (Wrapped w t ms)
  then show ?thesis by (cases w) (simp_all add: module_globals_def)
qed (simp_all add: module_globals_def)

lemma unwrap_annotation_non_wrapper:
  "get_origin a \<notin> wrapper_type_set g \<Longrightarrow> unwrap_annotation g a = (Inr None, g)"
  by (simp add: unwrap_annotation_def)

lemma unwrap_annotation_Wrapped:
  "unwrap_annotation module_globals (Wrapped w t ms) =
     (Inr (Some (t, ms, {Wrapper w})), module_globals)"
  using wrapper_origin_iff [of "Wrapped w t ms"]
  by (simp add: unwrap_annotation_def)

lemma None_not_key:
  "dict_lookup (instantiable_type_mapping module_globals) PyNone = None"
  by (simp add: dict_lookup_def module_globals_def)

lemma goit_None:
  "get_origin_or_inner_type module_globals a = (Inr PyNone, module_globals)"
proof (induction a rule: measure_induct_rule [of size])
  case (less a)
  show ?case
  proof (cases "get_origin a \<in> wrapper_type_set module_globals")
    case False
    then show ?thesis by simp
  next
    case True
    then obtain w t ms where a: "a = Wrapped w t ms"
      using wrapper_origin_iff by blast
    have ih: "get_origin_or_inner_type module_globals t = (Inr PyNone, module_globals)"
      using less [of t] a by simp
    have "get_origin_or_inner_type module_globals (Wrapped w t ms) =
            (Inr (dict_get (instantiable_type_mapping module_globals) PyNone PyNone),
             module_globals)"
      using True a
      by (subst get_origin_or_inner_type.simps)
         (simp add: unwrap_annotation_Wrapped ih del: get_origin_or_inner_type.simps)
    then show ?thesis
      using a by (simp add: dict_get_def None_not_key del: get_origin_or_inner_type.simps)
  qed
qed


text \<open>
  C3. \<open>List[int]\<close> has the origin \<open>list\<close>, and \<open>list\<close> is a key of
  \<open>instantiable_type_mapping\<close> with the value \<open>list\<close>, yet
  \<open>get_origin_or_inner_type\<close> returns \<open>None\<close> for it: the table is consulted only
  inside the wrapper branch, and there with the result of the recursive call. The same
  holds for \<open>Annotated[List[int], 'm']\<close>. As a consequence \<open>is_non_string_sequence\<close>
  answers \<open>False\<close> for \<open>List[int]\<close>.
\<close>

theorem get_origin_or_inner_type_list_of_int:
  "get_origin (Subscript C_list [Class C_int]) = Class C_list
   \<and> dict_lookup (instantiable_type_mapping module_globals) (Class C_list)
       = Some (Class C_list)
   \<and> fst (get_origin_or_inner_type module_globals (Subscript C_list [Class C_int]))
       = Inr PyNone
   \<and> fst (get_origin_or_inner_type module_globals
            (Wrapped Annotated (Subscript C_list [Class C_int]) [StrVal ''m'']))
       = Inr PyNone
   \<and> fst (is_non_string_sequence module_globals (Subscript C_list [Class C_int]))
       = Inr False"
  by (simp add: unwrap_annotation_def Let_def module_globals_def dict_lookup_def dict_get_def
        is_non_string_sequence_def)

subsection \<open>The result of \<open>unwrap_annotation\<close>\<close>

text \<open>
  C2. For the plain classes \<open>int\<close> and \<open>str\<close>, and for \<open>List[int]\<close>, whose origins
  are not in \<open>wrapper_type_set\<close>, \<open>unwrap_annotation\<close> raises nothing and returns
  \<open>None\<close>, not the triple \<open>(annotation, (), set())\<close>: the loop body is never entered and
  the only \<open>return\<close> stands inside it.
\<close>

theorem unwrap_annotation_plain_is_None:
  "fst (unwrap_annotation module_globals (Class C_int)) = Inr None
   \<and> fst (unwrap_annotation module_globals (Class C_str)) = Inr None
   \<and> fst (unwrap_annotation module_globals (Subscript C_list [Class C_int])) = Inr None"
  by (simp add: unwrap_annotation_def module_globals_def Let_def)

text \<open>
  C1. For \<open>ReadOnly[Annotated[int, 'm']]\<close> the function returns at the end of the first
  pass through the loop: the wrapper set is \<open>{ReadOnly}\<close> alone and the returned
  annotation is \<open>Annotated[int, 'm']\<close>, whose origin is still in \<open>wrapper_type_set\<close>.
\<close>

theorem unwrap_annotation_nested_wrappers:
  "fst (unwrap_annotation module_globals
          (Wrapped ReadOnly (Wrapped Annotated (Class C_int) [StrVal ''m'']) []))
     = Inr (Some (Wrapped Annotated (Class C_int) [StrVal ''m''], [], {Wrapper ReadOnly}))
   \<and> get_origin (Wrapped Annotated (Class C_int) [StrVal ''m''])
       \<in> wrapper_type_set module_globals"
  by (simp add: unwrap_annotation_def module_globals_def Let_def)

text \<open>
  C6. Only the metadata of the outermost layer is returned. For
  \<open>Required[Annotated[int, 'm']]\<close> the metadata is empty although the inner layer carries
  \<open>'m'\<close>; for \<open>Annotated[Required[Annotated[int, 'in']], 'out']\<close> it is \<open>('out',)\<close> and
  \<open>'in'\<close> is missing.
\<close>

theorem unwrap_annotation_inner_metadata_lost:
  "fst (unwrap_annotation module_globals
          (Wrapped Required (Wrapped Annotated (Class C_int) [StrVal ''m'']) []))
     = Inr (Some (Wrapped Annotated (Class C_int) [StrVal ''m''], [], {Wrapper Required}))
   \<and> fst (unwrap_annotation module_globals
          (Wrapped Annotated
             (Wrapped Required (Wrapped Annotated (Class C_int) [StrVal ''in'']) [])
             [StrVal ''out'']))
     = Inr (Some (Wrapped Required (Wrapped Annotated (Class C_int) [StrVal ''in'']) [],
                  [StrVal ''out''], {Wrapper Annotated}))"
  by (simp add: unwrap_annotation_def module_globals_def Let_def)

text \<open>
  C7. A second call on the returned annotation does not give that annotation back with
  empty metadata and wrappers. For \<open>Required[int]\<close> the first call returns \<open>int\<close> and the
  second call, on \<open>int\<close>, returns \<open>None\<close>. For \<open>Required[Annotated[int, 'm']]\<close> the first
  call returns \<open>Annotated[int, 'm']\<close> and the second call returns \<open>int\<close> with the
  metadata \<open>('m',)\<close> and the wrapper set \<open>{Annotated}\<close>.
\<close>

theorem unwrap_annotation_second_call:
  "fst (unwrap_annotation module_globals (Wrapped Required (Class C_int) []))
     = Inr (Some (Class C_int, [], {Wrapper Required}))
   \<and> fst (unwrap_annotation module_globals (Class C_int)) = Inr None
   \<and> fst (unwrap_annotation module_globals
          (Wrapped Required (Wrapped Annotated (Class C_int) [StrVal ''m'']) []))
     = Inr (Some (Wrapped Annotated (Class C_int) [StrVal ''m''], [], {Wrapper Required}))
   \<and> fst (unwrap_annotation module_globals (Wrapped Annotated (Class C_int) [StrVal ''m'']))
     = Inr (Some (Class C_int, [StrVal ''m''], {Wrapper Annotated}))"
  by (simp add: unwrap_annotation_def module_globals_def Let_def)

subsection \<open>The container table\<close>

text \<open>
  C9. \<open>instantiable_type_mapping\<close> has an entry for each of the \<open>typing\<close> aliases
  \<open>Sequence\<close>, \<open>Mapping\<close>, \<open>Set\<close>, \<open>MutableSequence\<close>, \<open>MutableMapping\<close>,
  \<open>MutableSet\<close>, \<open>FrozenSet\<close>, \<open>Deque\<close>, \<open>Dict\<close>, \<open>List\<close> and \<open>Tuple\<close>; each of
  the classes \<open>list\<close>, \<open>dict\<close>, \<open>set\<close>, \<open>tuple\<close>, \<open>frozenset\<close>, \<open>deque\<close> and
  \<open>defaultdict\<close> is mapped to itself; every value of the table is one of these seven
  classes; and the lookup of an object that is not a key gives nothing.
\<close>

theorem instantiable_type_mapping_entries:
  "dict_lookup (instantiable_type_mapping module_globals) (Alias T_Sequence)
     = Some (Class C_list)
   \<and> dict_lookup (instantiable_type_mapping module_globals) (Alias T_Mapping)
     = Some (Class C_dict)
   \<and> dict_lookup (instantiable_type_mapping module_globals) (Alias T_Set)
     = Some (Class C_set)
   \<and> dict_lookup (instantiable_type_mapping module_globals) (Alias T_MutableSequence)
     = Some (Class C_list)
   \<and> dict_lookup (instantiable_type_mapping module_globals) (Alias T_MutableMapping)
     = Some (Class C_dict)
   \<and> dict_lookup (instantiable_type_mapping module_globals) (Alias T_MutableSet)
     = Some (Class C_set)
   \<and> dict_lookup (instantiable_type_mapping module_globals) (Alias T_FrozenSet)
     = Some (Class C_frozenset)
   \<and> dict_lookup (instantiable_type_mapping module_globals) (Alias T_Deque)
     = Some (Class C_deque)
   \<and> dict_lookup (instantiable_type_mapping module_globals) (Alias T_Dict)
     = Some (Class C_dict)
   \<and> dict_lookup (instantiable_type_mapping module_globals) (Alias T_List)
     = Some (Class C_list)
   \<and> dict_lookup (instantiable_type_mapping module_globals) (Alias T_Tuple)
     = Some (Class C_tuple)
   \<and> (c \<in> {C_list, C_dict, C_set, C_tuple, C_frozenset, C_deque, C_defaultdict} \<longrightarrow>
        dict_lookup (instantiable_type_mapping module_globals) (Class c) = Some (Class c))
   \<and> (dict_lookup (instantiable_type_mapping module_globals) k = Some v \<longrightarrow>
        (\<exists>c \<in> {C_list, C_dict, C_set, C_tuple, C_frozenset, C_deque, C_defaultdict}.
           v = Class c))
   \<and> (k' \<notin> fst ` set (instantiable_type_mapping module_globals) \<longrightarrow>
        dict_lookup (instantiable_type_mapping module_globals) k' = None)"
proof -
  have entries:
    "dict_lookup (instantiable_type_mapping module_globals) k = Some v \<longrightarrow>
        (\<exists>c \<in> {C_list, C_dict, C_set, C_tuple, C_frozenset, C_deque, C_defaultdict}.
           v = Class c)"
    by (simp add: dict_lookup_def module_globals_def split: if_splits)
  have absent:
    "k' \<notin> fst ` set (instantiable_type_mapping module_globals) \<longrightarrow>
        dict_lookup (instantiable_type_mapping module_globals) k' = None"
    by (simp only: dict_lookup_def map_of_eq_None_iff) simp
  have concrete:
    "c \<in> {C_list, C_dict, C_set, C_tuple, C_frozenset, C_deque, C_defaultdict} \<longrightarrow>
        dict_lookup (instantiable_type_mapping module_globals) (Class c) = Some (Class c)"
    by (auto simp: dict_lookup_def module_globals_def)
  show ?thesis
    using entries absent concrete
    by (simp add: dict_lookup_def module_globals_def)
qed

theorem instantiable_type_mapping_entries_witness:
  "C_deque \<in> {C_list, C_dict, C_set, C_tuple, C_frozenset, C_deque, C_defaultdict}
   \<and> dict_lookup (instantiable_type_mapping module_globals) (Class C_deque)
       = Some (Class C_deque)
   \<and> dict_lookup (instantiable_type_mapping module_globals) (Class ABC_Sequence)
       = Some (Class C_list)
   \<and> Class C_int \<notin> fst ` set (instantiable_type_mapping module_globals)
   \<and> dict_lookup (instantiable_type_mapping module_globals) (Class C_int) = None"
  using instantiable_type_mapping_entries
          [of C_deque "Class ABC_Sequence" "Class C_list" "Class C_int"]
  by (simp add: module_globals_def dict_lookup_def)

subsection \<open>The result of \<open>is_non_string_sequence\<close>\<close>




lemma subtype_test_Class:
  "subtype_test (Class c) =
     Inr (\<not> (subclass_of c C_str \<or> subclass_of c C_bytes)
          \<and> (subclass_of c C_tuple \<or> subclass_of c C_list \<or> subclass_of c C_set
             \<or> subclass_of c C_frozenset \<or> subclass_of c C_deque
             \<or> subclass_of c ABC_Sequence))"
  by (auto simp: subtype_test_def string_types_def sequence_types_def split: bool.splits)

lemma is_non_string_sequence_plain:
  "is_non_string_sequence module_globals a =
     ((if isclass a then
         (case subtype_test a of
            Inl TypeError \<Rightarrow> Inr False
          | Inl e \<Rightarrow> Inl e
          | Inr b \<Rightarrow> Inr b)
       else Inr False), module_globals)"
  by (simp add: is_non_string_sequence_def goit_None py_or_def
           del: get_origin_or_inner_type.simps split: sum.splits error.splits)

lemma is_non_string_sequence_not_class:
  "\<not> isclass a \<Longrightarrow> is_non_string_sequence module_globals a = (Inr False, module_globals)"
  by (simp add: is_non_string_sequence_plain)

lemma is_non_string_sequence_Class:
  "is_non_string_sequence module_globals (Class c) =
     (Inr (\<not> (subclass_of c C_str \<or> subclass_of c C_bytes)
          \<and> (subclass_of c C_tuple \<or> subclass_of c C_list \<or> subclass_of c C_set
             \<or> subclass_of c C_frozenset \<or> subclass_of c C_deque
             \<or> subclass_of c ABC_Sequence)), module_globals)"
  by (simp add: is_non_string_sequence_plain subtype_test_Class)

text \<open>
  C4. \<open>List[int]\<close> has the origin \<open>list\<close>, a class that is not a subclass of \<open>str\<close>
  or \<open>bytes\<close> and is a subclass of \<open>list\<close>, so the two subclass tests on it succeed;
  and \<open>list\<close> itself, passed as a plain class, is answered \<open>True\<close>. Yet
  \<open>is_non_string_sequence\<close> answers \<open>False\<close> for \<open>List[int]\<close>, and likewise for
  \<open>Sequence[int]\<close> and \<open>Annotated[List[int], 'm']\<close>: \<open>get_origin_or_inner_type\<close>
  hands back \<open>None\<close>, the annotation is not a class, and the first test returns \<open>False\<close>
  before any subclass test is made.
\<close>

theorem is_non_string_sequence_list_of_int:
  "get_origin (Subscript C_list [Class C_int]) = Class C_list
   \<and> subtype_test (Class C_list) = Inr True
   \<and> fst (is_non_string_sequence module_globals (Class C_list)) = Inr True
   \<and> fst (get_origin_or_inner_type module_globals (Subscript C_list [Class C_int]))
       = Inr PyNone
   \<and> \<not> isclass (Subscript C_list [Class C_int])
   \<and> fst (is_non_string_sequence module_globals (Subscript C_list [Class C_int]))
       = Inr False
   \<and> fst (is_non_string_sequence module_globals (Subscript ABC_Sequence [Class C_int]))
       = Inr False
   \<and> fst (is_non_string_sequence module_globals
            (Wrapped Annotated (Subscript C_list [Class C_int]) [StrVal ''m'']))
       = Inr False"
  by (simp add: is_non_string_sequence_Class is_non_string_sequence_not_class
        subtype_test_Class subclass_of_def goit_None del: get_origin_or_inner_type.simps)



end
